theory Spec2Isabelle
  imports
    Complex_Main
    "HOL-Library.Char_ord"
    "HOL-Library.List_Lexorder"
    "HOL-Library.Option_ord"
    "HOL-Library.Product_Lexorder"
    "HOL-Library.Multiset"
begin

section \<open>Values of the storage engine\<close>

text \<open>
  The query layer (\<^verbatim>\<open>queries.py\<close>) builds SQL expressions that SQLite evaluates. A
  computed column holds one of SQLite's storage classes. \<open>REAL\<close> values are kept as
  exact rationals: the rounding to binary64 is not part of this development.
\<close>

datatype sql_value = SNull | SInt int | SReal rat | SText string

datatype error = KeyError | IntegerOverflow

text \<open>
  Python's \<^verbatim>\<open>datetime\<close> (naive). SQLAlchemy stores a \<^verbatim>\<open>DateTime\<close> column in SQLite
  as the fixed-width text \<^verbatim>\<open>YYYY-MM-DD HH:MM:SS.ffffff\<close>, so comparing two stored
  values compares the fields from the year down.
\<close>

record datetime =
  year :: nat
  month :: nat
  day :: nat
  hour :: nat
  minute :: nat
  second :: nat
  microsecond :: nat




definition dt_key :: "datetime \<Rightarrow> nat \<times> nat \<times> nat \<times> nat \<times> nat \<times> nat \<times> nat" where
  "dt_key t = (year t, month t, day t, hour t, minute t, second t, microsecond t)"

text \<open>Chronological order, as the stored texts compare.\<close>

definition dt_le :: "datetime \<Rightarrow> datetime \<Rightarrow> bool" where
  "dt_le a b = (dt_key a \<le> dt_key b)"

definition dt_less :: "datetime \<Rightarrow> datetime \<Rightarrow> bool" where
  "dt_less a b = (dt_key a < dt_key b)"

section \<open>SQLite's date formatting\<close>

definition digit_char :: "nat \<Rightarrow> char" where
  "digit_char d = ''0123456789'' ! d"

definition pad2 :: "nat \<Rightarrow> string" where
  "pad2 n = [digit_char (n div 10 mod 10), digit_char (n mod 10)]"

definition pad4 :: "nat \<Rightarrow> string" where
  "pad4 n = [digit_char (n div 1000 mod 10), digit_char (n div 100 mod 10),
             digit_char (n div 10 mod 10), digit_char (n mod 10)]"

text \<open>
  The Julian day number of a civil date, as SQLite's \<^verbatim>\<open>computeJD\<close> derives it (the day
  number at noon). All dividends are non-negative from year 1 on, where C's division and
  \<open>div\<close> agree.
\<close>

definition julian_day :: "nat \<Rightarrow> nat \<Rightarrow> nat \<Rightarrow> int" where
  "julian_day y m d =
     (let Y = (if m \<le> 2 then int y - 1 else int y);
          M = (if m \<le> 2 then int m + 12 else int m);
          A = Y div 100;
          B = 2 - A + A div 4;
          X1 = 36525 * (Y + 4716) div 100;
          X2 = 306001 * (M + 1) div 10000
      in X1 + X2 + int d + B - 1524)"

text \<open>Days since Monday: 0 is Monday, 6 is Sunday.\<close>

definition days_after_monday :: "datetime \<Rightarrow> int" where
  "days_after_monday t = julian_day (year t) (month t) (day t) mod 7"

definition days_after_jan01 :: "datetime \<Rightarrow> int" where
  "days_after_jan01 t = julian_day (year t) (month t) (day t) - julian_day (year t) 1 1"

text \<open>The \<^verbatim>\<open>%W\<close> conversion of SQLite's \<^verbatim>\<open>strftime\<close>.\<close>

definition week_of_year :: "datetime \<Rightarrow> int" where
  "week_of_year t = (days_after_jan01 t - days_after_monday t + 7) div 7"

definition strftime_field :: "char \<Rightarrow> datetime \<Rightarrow> string option" where
  "strftime_field c t =
     (if c = CHR ''Y'' then Some (pad4 (year t))
      else if c = CHR ''m'' then Some (pad2 (month t))
      else if c = CHR ''d'' then Some (pad2 (day t))
      else if c = CHR ''H'' then Some (pad2 (hour t))
      else if c = CHR ''M'' then Some (pad2 (minute t))
      else if c = CHR ''W'' then Some (pad2 (nat (week_of_year t)))
      else if c = CHR ''%'' then Some ''%''
      else None)"

text \<open>
  \<^verbatim>\<open>strftime(fmt, t)\<close> for the conversions this module uses; a conversion outside of them
  makes the result NULL (\<open>None\<close>).
\<close>

fun strftime :: "string \<Rightarrow> datetime \<Rightarrow> string option" where
  "strftime [] t = Some []"
| "strftime [c] t = (if c = CHR ''%'' then None else Some [c])"
| "strftime (c # d # cs) t =
     (if c = CHR ''%''
      then (case strftime_field d t of
              None \<Rightarrow> None
            | Some s \<Rightarrow> map_option ((@) s) (strftime cs t))
      else map_option ((#) c) (strftime (d # cs) t))"

definition sql_strftime :: "string \<Rightarrow> datetime option \<Rightarrow> sql_value" where
  "sql_strftime fmt col =
     (case col of
        None \<Rightarrow> SNull
      | Some t \<Rightarrow> (case strftime fmt t of None \<Rightarrow> SNull | Some s \<Rightarrow> SText s))"

section \<open>SQLite's arithmetic on computed columns\<close>

definition is_digit :: "char \<Rightarrow> bool" where
  "is_digit c = (CHR ''0'' \<le> c \<and> c \<le> CHR ''9'')"

fun digits_value :: "int \<Rightarrow> string \<Rightarrow> int" where
  "digits_value acc [] = acc"
| "digits_value acc (c # cs) =
     (if is_digit c then digits_value (acc * 10 + (int (of_char c) - 48)) cs else acc)"

text \<open>
  A text operand of an arithmetic operator or of \<^verbatim>\<open>CAST(... AS INTEGER)\<close> is read as
  the number its longest numeric prefix spells, 0 when there is none. The texts this
  module computes start with a run of digits followed by \<^verbatim>\<open>-\<close>, \<^verbatim>\<open>:\<close> or the end, so
  only the integer prefix is modelled.
\<close>

definition text_to_int :: "string \<Rightarrow> int" where
  "text_to_int s =
     (case s of
        [] \<Rightarrow> 0
      | c # cs \<Rightarrow> (if c = CHR ''-'' then - digits_value 0 cs
                  else if c = CHR ''+'' then digits_value 0 cs
                  else digits_value 0 s))"

definition in_int64 :: "int \<Rightarrow> bool" where
  "in_int64 i = (- (2 ^ 63) \<le> i \<and> i < 2 ^ 63)"

datatype sql_num = NInt int | NReal rat

fun to_num :: "sql_value \<Rightarrow> sql_num option" where
  "to_num SNull = None"
| "to_num (SInt i) = Some (NInt i)"
| "to_num (SReal r) = Some (NReal r)"
| "to_num (SText s) = Some (NInt (text_to_int s))"

fun num_rat :: "sql_num \<Rightarrow> rat" where
  "num_rat (NInt i) = of_int i"
| "num_rat (NReal r) = r"

text \<open>Division of integers truncates towards zero.\<close>

definition trunc_div :: "int \<Rightarrow> int \<Rightarrow> int" where
  "trunc_div a b = sgn a * sgn b * (\<bar>a\<bar> div \<bar>b\<bar>)"

text \<open>
  The SQL operator \<^verbatim>\<open>+\<close>: arithmetic addition. Both operands are converted to numbers
  first, text included; it never concatenates (that is \<^verbatim>\<open>||\<close>).
\<close>

definition sql_add :: "sql_value \<Rightarrow> sql_value \<Rightarrow> sql_value" where
  "sql_add a b =
     (case (to_num a, to_num b) of
        (Some (NInt x), Some (NInt y)) \<Rightarrow>
          (if in_int64 (x + y) then SInt (x + y) else SReal (of_int x + of_int y))
      | (Some x, Some y) \<Rightarrow> SReal (num_rat x + num_rat y)
      | _ \<Rightarrow> SNull)"

definition sql_div :: "sql_value \<Rightarrow> sql_value \<Rightarrow> sql_value" where
  "sql_div a b =
     (case (to_num a, to_num b) of
        (Some (NInt x), Some (NInt y)) \<Rightarrow> (if y = 0 then SNull else SInt (trunc_div x y))
      | (Some x, Some y) \<Rightarrow> (if num_rat y = 0 then SNull else SReal (num_rat x / num_rat y))
      | _ \<Rightarrow> SNull)"

definition sql_mul :: "sql_value \<Rightarrow> sql_value \<Rightarrow> sql_value" where
  "sql_mul a b =
     (case (to_num a, to_num b) of
        (Some (NInt x), Some (NInt y)) \<Rightarrow>
          (if in_int64 (x * y) then SInt (x * y) else SReal (of_int x * of_int y))
      | (Some x, Some y) \<Rightarrow> SReal (num_rat x * num_rat y)
      | _ \<Rightarrow> SNull)"

definition sql_cast_integer :: "sql_value \<Rightarrow> sql_value" where
  "sql_cast_integer v =
     (case to_num v of
        None \<Rightarrow> SNull
      | Some (NInt i) \<Rightarrow> SInt i
      | Some (NReal r) \<Rightarrow> SInt (sgn \<lfloor>r\<rfloor> * \<lfloor>\<bar>r\<bar>\<rfloor>))"

fun dec_string :: "nat \<Rightarrow> string" where
  "dec_string n = (if n < 10 then [digit_char n] else dec_string (n div 10) @ [digit_char (n mod 10)])"

text \<open>The conversion \<^verbatim>\<open>%02d\<close>: at least two characters, padded with zeros.\<close>

definition fmt_02d :: "int \<Rightarrow> string" where
  "fmt_02d i =
     (if i < 0 then CHR ''-'' # dec_string (nat (- i))
      else if i < 100 then pad2 (nat i)
      else dec_string (nat i))"

fun printf_fmt :: "string \<Rightarrow> int \<Rightarrow> string" where
  "printf_fmt (a # b # c # d # cs) i =
     (if [a, b, c, d] = ''%02d'' then fmt_02d i @ cs else a # printf_fmt (b # c # d # cs) i)"
| "printf_fmt cs i = cs"

text \<open>\<^verbatim>\<open>printf(fmt, v)\<close> with one integer conversion; a NULL argument prints as 0.\<close>

definition sql_printf :: "string \<Rightarrow> sql_value \<Rightarrow> sql_value" where
  "sql_printf fmt v =
     SText (printf_fmt fmt (case sql_cast_integer v of SInt i \<Rightarrow> i | _ \<Rightarrow> 0))"

section \<open>The time-bucketing expression\<close>

text \<open>
  \<^verbatim>\<open>class Granularity(str, Enum)\<close> and \<^verbatim>\<open>class Aggregation(str, Enum)\<close>: the members are
  strings, and a member equals (and hashes as) its value. A function of the query layer
  receives such a value; nothing in it checks that the value is a member.
\<close>

datatype Granularity = FIVE_MIN | FIFTEEN_MIN | THIRTY_MIN | HOURLY | DAILY | WEEKLY | MONTHLY

fun Granularity_value :: "Granularity \<Rightarrow> string" where
  "Granularity_value FIVE_MIN = ''5min''"
| "Granularity_value FIFTEEN_MIN = ''15min''"
| "Granularity_value THIRTY_MIN = ''30min''"
| "Granularity_value HOURLY = ''hourly''"
| "Granularity_value DAILY = ''daily''"
| "Granularity_value WEEKLY = ''weekly''"
| "Granularity_value MONTHLY = ''monthly''"

datatype Aggregation = AVERAGE | PEAK

fun Aggregation_value :: "Aggregation \<Rightarrow> string" where
  "Aggregation_value AVERAGE = ''average''"
| "Aggregation_value PEAK = ''peak''"

definition BUCKET_FORMAT :: "(string \<times> string option) list" where
  "BUCKET_FORMAT =
     [(Granularity_value FIVE_MIN, None),
      (Granularity_value FIFTEEN_MIN, None),
      (Granularity_value THIRTY_MIN, None),
      (Granularity_value HOURLY, Some ''%Y-%m-%d %H:00:00''),
      (Granularity_value DAILY, Some ''%Y-%m-%d''),
      (Granularity_value WEEKLY, Some ''%Y-%W''),
      (Granularity_value MONTHLY, Some ''%Y-%m'')]"

definition sub_hour_minutes :: "(string \<times> int) list" where
  "sub_hour_minutes =
     [(Granularity_value FIVE_MIN, 5),
      (Granularity_value FIFTEEN_MIN, 15),
      (Granularity_value THIRTY_MIN, 30)]"

text \<open>
  \<^verbatim>\<open>_time_bucket(timestamp_col, granularity)\<close> returns the SQL expression of the bucket,
  here the function from the column's value to the expression's value. A lookup in a
  dict with a key it does not hold raises \<^verbatim>\<open>KeyError\<close>.

  The sub-hour branch combines two expressions with Python's \<^verbatim>\<open>+\<close>. Both operands are
  \<^verbatim>\<open>func.<name>(...)\<close> calls of functions SQLAlchemy has no return type for, so the
  operator is emitted as SQL \<^verbatim>\<open>+\<close> (it becomes \<^verbatim>\<open>||\<close> only when an operand has a string
  type), and SQLite adds the two texts as numbers. The quotient is taken between the
  \<^verbatim>\<open>INTEGER\<close> cast and an integer, SQL's integer division, as the source's comment
  describes it.
\<close>

definition time_bucket :: "string \<Rightarrow> error + (datetime option \<Rightarrow> sql_value)" where
  "time_bucket granularity =
     (case map_of BUCKET_FORMAT granularity of
        None \<Rightarrow> Inl KeyError
      | Some (Some fmt) \<Rightarrow> Inr (\<lambda>timestamp_col. sql_strftime fmt timestamp_col)
      | Some None \<Rightarrow>
          (case map_of sub_hour_minutes granularity of
             None \<Rightarrow> Inl KeyError
           | Some minutes \<Rightarrow>
               Inr (\<lambda>timestamp_col.
                 sql_add
                   (sql_strftime ''%Y-%m-%d %H:'' timestamp_col)
                   (sql_printf ''%02d:00''
                      (sql_mul
                         (sql_div (sql_cast_integer (sql_strftime ''%M'' timestamp_col))
                                  (SInt minutes))
                         (SInt minutes))))))"

text \<open>The bucket key of one timestamp: the expression evaluated on a row holding it.\<close>

definition bucket_key :: "datetime \<Rightarrow> string \<Rightarrow> error + sql_value" where
  "bucket_key t granularity =
     (case time_bucket granularity of Inl e \<Rightarrow> Inl e | Inr bucket \<Rightarrow> Inr (bucket (Some t)))"

section \<open>The observation store\<close>

text \<open>
  The two tables of \<^verbatim>\<open>models.py\<close>. A column declared without \<^verbatim>\<open>nullable=False\<close> may
  hold NULL (\<open>None\<close>); the primary key never does.
\<close>

record PlayerCount =
  row_id :: int
  player_count :: int
  game :: string
  timestamp :: "datetime option"

record PlayerCountByWorld =
  row_id :: int
  world :: string
  players :: int
  location :: "string option"
  wtype :: "string option"
  activity :: "string option"
  timestamp :: "datetime option"

record session =
  playercount :: "PlayerCount list"
  playercountbyworld :: "PlayerCountByWorld list"

text \<open>
  \<^verbatim>\<open>col >= start\<close> and \<^verbatim>\<open>col <= end\<close> in a \<^verbatim>\<open>WHERE\<close> clause: a comparison with NULL is
  not true, so a row without timestamp never passes.
\<close>

definition sql_ge :: "datetime option \<Rightarrow> datetime \<Rightarrow> bool" where
  "sql_ge col t = (case col of None \<Rightarrow> False | Some c \<Rightarrow> dt_le t c)"

definition sql_le :: "datetime option \<Rightarrow> datetime \<Rightarrow> bool" where
  "sql_le col t = (case col of None \<Rightarrow> False | Some c \<Rightarrow> dt_le c t)"

section \<open>Grouping, ordering and aggregates of the engine\<close>

text \<open>
  The order of \<^verbatim>\<open>ORDER BY\<close> and of the groups of \<^verbatim>\<open>GROUP BY\<close>: NULL first, then numbers
  by value, then text bytewise.
\<close>

fun sql_sort_key :: "sql_value \<Rightarrow> nat \<times> rat \<times> string" where
  "sql_sort_key SNull = (0, 0, [])"
| "sql_sort_key (SInt i) = (1, of_int i, [])"
| "sql_sort_key (SReal r) = (1, r, [])"
| "sql_sort_key (SText s) = (2, 0, s)"

text \<open>
  \<^verbatim>\<open>GROUP BY g\<close>: one group per distinct value of \<open>g\<close>, the groups in the order of their
  keys, each holding its rows in table order. (The grouped expressions of this module
  never mix integers with reals, so distinct values are distinct groups.)
\<close>

definition group_by :: "('r \<Rightarrow> 'g) \<Rightarrow> ('g \<Rightarrow> 'k::linorder) \<Rightarrow> 'r list \<Rightarrow> ('g \<times> 'r list) list" where
  "group_by g ord rows =
     map (\<lambda>k. (k, filter (\<lambda>r. g r = k) rows)) (sort_key ord (remdups (map g rows)))"

definition order_by :: "('a \<Rightarrow> 'k::linorder) \<Rightarrow> 'a list \<Rightarrow> 'a list" where
  "order_by k xs = sort_key k xs"

definition order_by_desc :: "('a \<Rightarrow> 'k::linorder) \<Rightarrow> 'a list \<Rightarrow> 'a list" where
  "order_by_desc k xs = rev (sort_key k (rev xs))"

text \<open>
  The aggregates run over the values of a \<^verbatim>\<open>NOT NULL\<close> integer column, one step per
  row: \<^verbatim>\<open>avg\<close> keeps a running sum and a count and yields a REAL, \<^verbatim>\<open>max\<close> keeps the
  largest value seen, \<^verbatim>\<open>sum\<close> keeps a 64-bit total and fails with "integer overflow" once
  it leaves the range.
\<close>

definition avg_step :: "int \<Rightarrow> rat \<times> nat \<Rightarrow> rat \<times> nat" where
  "avg_step v acc = (fst acc + of_int v, Suc (snd acc))"

definition sql_avg :: "int list \<Rightarrow> sql_value" where
  "sql_avg vs =
     (case fold avg_step vs (0, 0) of
        (s, n) \<Rightarrow> if n = 0 then SNull else SReal (s / of_nat n))"

definition sql_max :: "int list \<Rightarrow> sql_value" where
  "sql_max vs = (case vs of [] \<Rightarrow> SNull | v # rest \<Rightarrow> SInt (fold max rest v))"

definition sum_step :: "int \<Rightarrow> int \<times> bool \<Rightarrow> int \<times> bool" where
  "sum_step v acc =
     (if \<not> snd acc \<and> in_int64 (fst acc + v) then (fst acc + v, False) else (fst acc, True))"

definition sql_sum :: "int list \<Rightarrow> error + sql_value" where
  "sql_sum vs =
     (case vs of
        [] \<Rightarrow> Inr SNull
      | _ # _ \<Rightarrow> (case fold sum_step vs (0, False) of
                   (s, ovf) \<Rightarrow> if ovf then Inl IntegerOverflow else Inr (SInt s)))"

definition sql_count :: "'a list \<Rightarrow> sql_value" where
  "sql_count vs = SInt (int (length vs))"

text \<open>The first failing row of a result set fails the query.\<close>

fun collect :: "(error + 'a) list \<Rightarrow> error + 'a list" where
  "collect [] = Inr []"
| "collect (Inl e # xs) = Inl e"
| "collect (Inr x # xs) = (case collect xs of Inl e \<Rightarrow> Inl e | Inr ys \<Rightarrow> Inr (x # ys))"

section \<open>The query functions\<close>

datatype agg_fn = func_avg | func_max

definition agg_func :: "string \<Rightarrow> agg_fn" where
  "agg_func agg = (if agg = Aggregation_value AVERAGE then func_avg else func_max)"

fun apply_agg :: "agg_fn \<Rightarrow> int list \<Rightarrow> sql_value" where
  "apply_agg func_avg vs = sql_avg vs"
| "apply_agg func_max vs = sql_max vs"

text \<open>Rows \<open>(time_bucket, player_count)\<close>.\<close>

type_synonym series_row = "sql_value \<times> sql_value"

definition player_count_timeseries ::
  "session \<Rightarrow> string \<Rightarrow> datetime \<Rightarrow> datetime \<Rightarrow> string \<Rightarrow> string \<Rightarrow> error + series_row list" where
  "player_count_timeseries session gm start end granularity agg =
     (case time_bucket granularity of
        Inl e \<Rightarrow> Inl e
      | Inr bucket \<Rightarrow>
          (let agg_fn = agg_func agg;
               rows = filter (\<lambda>r. PlayerCount.game r = gm \<and>
                                   sql_ge (PlayerCount.timestamp r) start \<and>
                                   sql_le (PlayerCount.timestamp r) end)
                             (playercount session);
               groups = group_by (\<lambda>r. bucket (PlayerCount.timestamp r)) sql_sort_key rows
           in Inr (order_by (\<lambda>row. sql_sort_key (fst row))
                     (map (\<lambda>(b, rs). (b, apply_agg agg_fn (map player_count rs))) groups))))"

definition combined_total_timeseries ::
  "session \<Rightarrow> datetime \<Rightarrow> datetime \<Rightarrow> string \<Rightarrow> string \<Rightarrow> error + series_row list" where
  "combined_total_timeseries session start end granularity agg =
     (case time_bucket granularity of
        Inl e \<Rightarrow> Inl e
      | Inr bucket \<Rightarrow>
          (let agg_fn = agg_func agg;
               rows = filter (\<lambda>r. sql_ge (PlayerCount.timestamp r) start \<and>
                                   sql_le (PlayerCount.timestamp r) end)
                             (playercount session);
               groups = group_by (\<lambda>r. bucket (PlayerCount.timestamp r)) sql_sort_key rows
           in Inr (order_by (\<lambda>row. sql_sort_key (fst row))
                     (map (\<lambda>(b, rs). (b, apply_agg agg_fn (map player_count rs))) groups))))"

definition player_count_by_world ::
  "session \<Rightarrow> string \<Rightarrow> datetime \<Rightarrow> datetime \<Rightarrow> string \<Rightarrow> string \<Rightarrow> error + series_row list" where
  "player_count_by_world session wld start end granularity agg =
     (case time_bucket granularity of
        Inl e \<Rightarrow> Inl e
      | Inr bucket \<Rightarrow>
          (let agg_fn = agg_func agg;
               rows = filter (\<lambda>r. world r = wld \<and>
                                   sql_ge (PlayerCountByWorld.timestamp r) start \<and>
                                   sql_le (PlayerCountByWorld.timestamp r) end)
                             (playercountbyworld session);
               groups = group_by (\<lambda>r. bucket (PlayerCountByWorld.timestamp r)) sql_sort_key rows
           in Inr (order_by (\<lambda>row. sql_sort_key (fst row))
                     (map (\<lambda>(b, rs). (b, apply_agg agg_fn (map players rs))) groups))))"

text \<open>
  Rows \<open>(time_bucket, label, player_count)\<close> of the two summing variants. They take
  \<open>agg\<close> and never read it.
\<close>

type_synonym labelled_row = "sql_value \<times> string option \<times> sql_value"

definition sum_row :: "(sql_value \<times> string option) \<times> PlayerCountByWorld list \<Rightarrow> error + labelled_row" where
  "sum_row grp =
     (case sql_sum (map players (snd grp)) of
        Inl e \<Rightarrow> Inl e
      | Inr v \<Rightarrow> Inr (fst (fst grp), snd (fst grp), v))"

definition player_count_by_type ::
  "session \<Rightarrow> datetime \<Rightarrow> datetime \<Rightarrow> string \<Rightarrow> string \<Rightarrow> error + labelled_row list" where
  "player_count_by_type session start end granularity agg =
     (case time_bucket granularity of
        Inl e \<Rightarrow> Inl e
      | Inr bucket \<Rightarrow>
          (let rows = filter (\<lambda>r. sql_ge (PlayerCountByWorld.timestamp r) start \<and>
                                   sql_le (PlayerCountByWorld.timestamp r) end)
                             (playercountbyworld session);
               groups = group_by (\<lambda>r. (bucket (PlayerCountByWorld.timestamp r), wtype r))
                                 (\<lambda>k. (sql_sort_key (fst k), snd k)) rows
           in (case collect (map sum_row groups) of
                 Inl e \<Rightarrow> Inl e
               | Inr res \<Rightarrow> Inr (order_by (\<lambda>row. sql_sort_key (fst row)) res))))"

definition player_count_by_region ::
  "session \<Rightarrow> datetime \<Rightarrow> datetime \<Rightarrow> string \<Rightarrow> string \<Rightarrow> error + labelled_row list" where
  "player_count_by_region session start end granularity agg =
     (case time_bucket granularity of
        Inl e \<Rightarrow> Inl e
      | Inr bucket \<Rightarrow>
          (let rows = filter (\<lambda>r. sql_ge (PlayerCountByWorld.timestamp r) start \<and>
                                   sql_le (PlayerCountByWorld.timestamp r) end)
                             (playercountbyworld session);
               groups = group_by (\<lambda>r. (bucket (PlayerCountByWorld.timestamp r), location r))
                                 (\<lambda>k. (sql_sort_key (fst k), snd k)) rows
           in (case collect (map sum_row groups) of
                 Inl e \<Rightarrow> Inl e
               | Inr res \<Rightarrow> Inr (order_by (\<lambda>row. sql_sort_key (fst row)) res))))"

text \<open>\<^verbatim>\<open>max(timestamp)\<close> over a nullable column: NULLs are skipped, NULL when nothing is left.\<close>

definition max_step :: "datetime option \<Rightarrow> datetime option \<Rightarrow> datetime option" where
  "max_step col acc =
     (case col of
        None \<Rightarrow> acc
      | Some t \<Rightarrow> (case acc of None \<Rightarrow> Some t | Some m \<Rightarrow> Some (if dt_le t m then m else t)))"

definition sql_max_timestamp :: "datetime option list \<Rightarrow> datetime option" where
  "sql_max_timestamp cols = fold max_step cols None"

text \<open>Rows \<open>(world, players, location, type, activity, timestamp)\<close>.\<close>

type_synonym snapshot_row =
  "string \<times> int \<times> string option \<times> string option \<times> string option \<times> datetime option"

definition snapshot_columns :: "PlayerCountByWorld \<Rightarrow> snapshot_row" where
  "snapshot_columns r =
     (world r, players r, location r, wtype r, activity r, PlayerCountByWorld.timestamp r)"

definition world_snapshot :: "session \<Rightarrow> datetime option \<Rightarrow> snapshot_row list" where
  "world_snapshot session ts =
     (case (case ts of
              None \<Rightarrow> sql_max_timestamp (map PlayerCountByWorld.timestamp (playercountbyworld session))
            | Some t \<Rightarrow> Some t) of
        None \<Rightarrow> []
      | Some t \<Rightarrow>
          order_by_desc (\<lambda>row. fst (snd row))
            (map snapshot_columns
               (filter (\<lambda>r. PlayerCountByWorld.timestamp r = Some t) (playercountbyworld session))))"

text \<open>Rows \<open>(activity, total_players, snapshot_count)\<close>.\<close>

type_synonym activity_row = "string option \<times> int \<times> int"

definition activity_total :: "string option \<times> PlayerCountByWorld list \<Rightarrow> error + activity_row" where
  "activity_total grp =
     (case sql_sum (map players (snd grp)) of
        Inr (SInt v) \<Rightarrow> Inr (fst grp, v, int (length (snd grp)))
      | Inr _ \<Rightarrow> Inr (fst grp, 0, int (length (snd grp)))
      | Inl e \<Rightarrow> Inl e)"

definition player_count_by_activity ::
  "session \<Rightarrow> datetime \<Rightarrow> datetime \<Rightarrow> error + activity_row list" where
  "player_count_by_activity session start end =
     (let rows = filter (\<lambda>r. sql_ge (PlayerCountByWorld.timestamp r) start \<and>
                              sql_le (PlayerCountByWorld.timestamp r) end)
                        (playercountbyworld session);
          groups = group_by activity (\<lambda>k. k) rows
      in (case collect (map activity_total groups) of
            Inl e \<Rightarrow> Inl e
          | Inr res \<Rightarrow> Inr (order_by_desc (\<lambda>row. fst (snd row)) res)))"

section \<open>Ingestion\<close>

text \<open>
  \<^verbatim>\<open>players_by_world\<close> rewrites the scraped Activity column:
  \<^verbatim>\<open>replace(["-", "", None], "No Activity").fillna("No Activity")\<close>.
\<close>

definition normalize_activity :: "string option \<Rightarrow> string" where
  "normalize_activity a =
     (case a of
        None \<Rightarrow> ''No Activity''
      | Some s \<Rightarrow> if s = ''-'' \<or> s = [] then ''No Activity'' else s)"

text \<open>
  \<^verbatim>\<open>session.add_all(...)\<close> followed by \<^verbatim>\<open>commit()\<close>: the rows are appended, each with
  the next free primary key.
\<close>

definition next_id :: "PlayerCountByWorld list \<Rightarrow> int" where
  "next_id rows = fold max (map PlayerCountByWorld.row_id rows) 0 + 1"

fun assign_ids :: "int \<Rightarrow> PlayerCountByWorld list \<Rightarrow> PlayerCountByWorld list" where
  "assign_ids n [] = []"
| "assign_ids n (r # rs) = r\<lparr>PlayerCountByWorld.row_id := n\<rparr> # assign_ids (n + 1) rs"

definition add_all :: "session \<Rightarrow> PlayerCountByWorld list \<Rightarrow> session" where
  "add_all session objs =
     session\<lparr>playercountbyworld :=
       playercountbyworld session @ assign_ids (next_id (playercountbyworld session)) objs\<rparr>"

section \<open>Reference definitions and sample data\<close>

definition mk_datetime :: "nat \<Rightarrow> nat \<Rightarrow> nat \<Rightarrow> nat \<Rightarrow> nat \<Rightarrow> datetime" where
  "mk_datetime y mo d h mi =
     \<lparr>year = y, month = mo, day = d, hour = h, minute = mi, second = 0, microsecond = 0\<rparr>"

definition all_granularities :: "string list" where
  "all_granularities =
     map Granularity_value [FIVE_MIN, FIFTEEN_MIN, THIRTY_MIN, HOURLY, DAILY, WEEKLY, MONTHLY]"

text \<open>A global observation of OSRS on 2024-01-15 at 10:\<open>mi\<close>.\<close>

definition sample_count :: "nat \<Rightarrow> int \<Rightarrow> PlayerCount" where
  "sample_count mi n =
     \<lparr>PlayerCount.row_id = 0, player_count = n, game = ''OSRS'',
      PlayerCount.timestamp = Some (mk_datetime 2024 1 15 10 mi)\<rparr>"

definition sample_counts :: session where
  "sample_counts =
     \<lparr>playercount = [sample_count 5 10, sample_count 20 30, sample_count 40 20],
      playercountbyworld = []\<rparr>"






text \<open>An observation of world 301 on 2024-01-15 at 10:\<open>mi\<close>.\<close>

definition sample_world :: "nat \<Rightarrow> int \<Rightarrow> PlayerCountByWorld" where
  "sample_world mi n =
     \<lparr>PlayerCountByWorld.row_id = 0, world = ''301'', players = n, location = Some ''Germany'',
      wtype = Some ''Members'', activity = Some ''No Activity'',
      PlayerCountByWorld.timestamp = Some (mk_datetime 2024 1 15 10 mi)\<rparr>"


text \<open>The world observations whose timestamp lies in \<open>[start, end]\<close>, both ends included.\<close>

definition worlds_between :: "session \<Rightarrow> datetime \<Rightarrow> datetime \<Rightarrow> PlayerCountByWorld list" where
  "worlds_between session start end =
     filter (\<lambda>r. sql_ge (PlayerCountByWorld.timestamp r) start \<and>
                  sql_le (PlayerCountByWorld.timestamp r) end)
            (playercountbyworld session)"

text \<open>
  The summed series in the words of the specification: for every bucket and label that
  occur together in a row, the sum of the players of all rows of that bucket and label.
\<close>

definition sums_spec ::
  "(datetime option \<Rightarrow> sql_value) \<Rightarrow> (PlayerCountByWorld \<Rightarrow> string option) \<Rightarrow>
     PlayerCountByWorld list \<Rightarrow> labelled_row set" where
  "sums_spec bucket label rows =
     (\<lambda>r. (bucket (PlayerCountByWorld.timestamp r), label r,
            SInt (sum_list (map players
              (filter (\<lambda>q. bucket (PlayerCountByWorld.timestamp q)
                              = bucket (PlayerCountByWorld.timestamp r) \<and> label q = label r)
                 rows)))))
       ` set rows"

text \<open>Two members worlds and a free world observed in the same hour.\<close>

definition sample_mixed :: session where
  "sample_mixed =
     \<lparr>playercount = [],
      playercountbyworld =
        [sample_world 5 10, sample_world 5 20,
         (sample_world 5 30)\<lparr>world := ''302'', location := Some ''Australia'',
                               wtype := Some ''Free''\<rparr>]\<rparr>"

text \<open>A store with one scrape of two worlds at 10:05 on 2024-01-15.\<close>

definition sample_scrape :: "PlayerCountByWorld list" where
  "sample_scrape = [sample_world 5 10, (sample_world 5 250)\<lparr>world := ''302''\<rparr>]"

definition sample_store :: session where
  "sample_store = \<lparr>playercount = [], playercountbyworld = [sample_world 0 7]\<rparr>"

text \<open>The same store after that scrape: an older row at 10:00 and the two rows at 10:05.\<close>

definition sample_two_scrapes :: session where
  "sample_two_scrapes = \<lparr>playercount = [], playercountbyworld = sample_world 0 7 # sample_scrape\<rparr>"

text \<open>
  The rows \<^verbatim>\<open>main\<close> writes for one scrape. \<open>df\<close> is the scraped table, a row being
  \<open>(World, Players, Location, Type, Activity)\<close> with the Activity cell as scraped;
  \<^verbatim>\<open>players_by_world\<close> rewrites that cell before \<^verbatim>\<open>main\<close> builds the record, and every
  record of the scrape gets the same timestamp.
\<close>

definition main_world_rows ::
  "datetime \<Rightarrow> (string \<times> int \<times> string option \<times> string option \<times> string option) list \<Rightarrow>
     PlayerCountByWorld list" where
  "main_world_rows ts df =
     map (\<lambda>(w, p, loc, ty, act).
            \<lparr>PlayerCountByWorld.row_id = 0, world = w, players = p, location = loc, wtype = ty,
             activity = Some (normalize_activity act), PlayerCountByWorld.timestamp = Some ts\<rparr>)
         df"

text \<open>A store holding a row without activity next to a row labelled \<^verbatim>\<open>No Activity\<close>.\<close>

definition sample_split :: session where
  "sample_split =
     \<lparr>playercount = [],
      playercountbyworld = [(sample_world 5 10)\<lparr>activity := None\<rparr>, sample_world 5 30]\<rparr>"

text \<open>A store filled by one scrape whose Activity cells are missing, \<^verbatim>\<open>-\<close>, empty and a name.\<close>

definition sample_scraped :: session where
  "sample_scraped =
     add_all \<lparr>playercount = [], playercountbyworld = []\<rparr>
       (main_world_rows (mk_datetime 2024 1 15 10 5)
          [(''301'', 10, Some ''Germany'', Some ''Members'', None),
           (''302'', 20, Some ''Germany'', Some ''Free'', Some ''-''),
           (''303'', 30, Some ''Australia'', Some ''Free'', Some []),
           (''318'', 100, Some ''United Kingdom'', Some ''Members'', Some ''Bounty Hunter'')])"

section \<open>Facts about the engine\<close>

lemmas bucket_eval =
  bucket_key_def time_bucket_def BUCKET_FORMAT_def sub_hour_minutes_def sql_strftime_def
  strftime_field_def pad2_def pad4_def digit_char_def sql_add_def sql_printf_def sql_mul_def
  sql_div_def sql_cast_integer_def text_to_int_def is_digit_def fmt_02d_def trunc_div_def
  in_int64_def less_eq_char_def week_of_year_def days_after_jan01_def days_after_monday_def
  julian_day_def mk_datetime_def

lemmas query_eval =
  group_by_def order_by_def order_by_desc_def sql_ge_def sql_le_def dt_le_def dt_key_def
  agg_func_def sql_avg_def sql_max_def sql_sum_def sum_step_def avg_step_def sum_row_def
  activity_total_def




lemma sum_step_ok: "in_int64 (s + v) \<Longrightarrow> sum_step v (s, False) = (s + v, False)"
  by (simp add: sum_step_def)

lemma sum_step_fail: "\<not> in_int64 (s + v) \<Longrightarrow> sum_step v (s, False) = (s, True)"
  by (simp add: sum_step_def)

lemma sum_step_ovf: "sum_step v (s, True) = (s, True)"
  by (simp add: sum_step_def)

lemma fold_sum_step_ovf: "snd (fold sum_step vs (s, True))"
  by (induction vs arbitrary: s) (simp_all add: sum_step_ovf)

lemma fold_sum_step_ok:
  "fold sum_step vs (s, False) = (r, False) \<Longrightarrow> r = s + sum_list vs"
proof (induction vs arbitrary: s)
  case Nil
  then show ?case by simp
next
  case (Cons v vs)
  show ?case
  proof (cases "in_int64 (s + v)")
    case True
    with Cons.prems have "fold sum_step vs (s + v, False) = (r, False)"
      by (simp add: sum_step_ok)
    from Cons.IH [OF this] show ?thesis by simp
  next
    case False
    with Cons.prems have "fold sum_step vs (s, True) = (r, False)"
      by (simp add: sum_step_fail)
    with fold_sum_step_ovf [of vs s] show ?thesis by simp
  qed
qed

lemma sql_sum_total: "sql_sum vs = Inr v \<Longrightarrow> vs \<noteq> [] \<Longrightarrow> v = SInt (sum_list vs)"
proof -
  assume a: "sql_sum vs = Inr v" and ne: "vs \<noteq> []"
  obtain r ovf where f: "fold sum_step vs (0, False) = (r, ovf)"
    by (cases "fold sum_step vs (0, False)")
  from ne obtain x xs where vs: "vs = x # xs" by (cases vs) auto
  from a f vs have novf: "\<not> ovf" and v: "v = SInt r"
    by (auto simp: sql_sum_def split: if_splits)
  from f novf have "r = 0 + sum_list vs" using fold_sum_step_ok [of vs 0 r] by simp
  with v show ?thesis by simp
qed

lemma collect_Inr: "collect xs = Inr ys \<Longrightarrow> xs = map Inr ys"
proof (induction xs arbitrary: ys)
  case Nil
  then show ?case by simp
next
  case (Cons x xs)
  then show ?case by (cases x) (auto split: sum.splits)
qed

lemma group_by_iff:
  "(k, rs) \<in> set (group_by g ord rows) \<longleftrightarrow>
     k \<in> g ` set rows \<and> rs = filter (\<lambda>r. g r = k) rows"
  by (auto simp: group_by_def)

lemma group_by_nonempty: "(k, rs) \<in> set (group_by g ord rows) \<Longrightarrow> rs \<noteq> []"
  by (auto simp: group_by_iff filter_empty_conv)

lemma group_by_keys_distinct: "distinct (map fst (group_by g ord rows))"
  by (simp add: group_by_def comp_def)

lemma set_order_by: "set (order_by k xs) = set xs"
  by (simp add: order_by_def)

lemma mset_order_by: "mset (order_by k xs) = mset xs"
  by (simp add: order_by_def)

lemma sorted_order_by: "sorted (map k (order_by k xs))"
  by (simp add: order_by_def)

lemma set_order_by_desc: "set (order_by_desc k xs) = set xs"
  by (simp add: order_by_desc_def)

lemma mset_order_by_desc: "mset (order_by_desc k xs) = mset xs"
  by (simp add: order_by_desc_def)

lemma sorted_order_by_desc: "sorted (rev (map k (order_by_desc k xs)))"
  by (simp add: order_by_desc_def rev_map)

lemma time_bucket_unknown:
  "granularity \<notin> set all_granularities \<Longrightarrow> time_bucket granularity = Inl KeyError"
  by (simp add: all_granularities_def time_bucket_def BUCKET_FORMAT_def)

section \<open>The bucket key of the sub-hour granularities\<close>


section \<open>Bucket keys and chronological order\<close>

text \<open>
  Claim C3 says that for every granularity the keys of two timestamps are equal exactly
  when the timestamps fall in the same bucket window, and that a later timestamp never has
  a smaller key. For the sub-hour granularities the code breaks both, by the addition
  described for C1: at 15 minutes, 10:30 on 15 January and 23:30 on 20 June 2024 share the
  key 2054 although they are months apart, and 10:45 on 15 January has the key 2069, which
  is larger than the key 2024 of the later 11:00 of the same day.
\<close>

theorem sub_hour_bucket_keys_merge_and_invert:
  "bucket_key (mk_datetime 2024 1 15 10 30) (Granularity_value FIFTEEN_MIN) = Inr (SInt 2054) \<and>
   bucket_key (mk_datetime 2024 6 20 23 30) (Granularity_value FIFTEEN_MIN) = Inr (SInt 2054) \<and>
   dt_less (mk_datetime 2024 1 15 10 45) (mk_datetime 2024 1 15 11 0) \<and>
   bucket_key (mk_datetime 2024 1 15 10 45) (Granularity_value FIFTEEN_MIN) = Inr (SInt 2069) \<and>
   bucket_key (mk_datetime 2024 1 15 11 0) (Granularity_value FIFTEEN_MIN) = Inr (SInt 2024) \<and>
   sql_sort_key (SInt 2024) < sql_sort_key (SInt 2069)"
  by (simp add: bucket_eval dt_less_def dt_key_def)

section \<open>Values outside the enumerations\<close>

text \<open>
  Claim C8 says that a granularity outside \<^verbatim>\<open>Granularity\<close> and an aggregation outside
  \<^verbatim>\<open>Aggregation\<close> both fail fast. The second half does not hold: \<^verbatim>\<open>_agg_func\<close> tests for
  \<^verbatim>\<open>AVERAGE\<close> and takes \<^verbatim>\<open>max\<close> otherwise, so the value \<^verbatim>\<open>median\<close> is served as a peak
  query and returns rows.
\<close>

theorem unknown_aggregation_returns_peak:
  "''median'' \<notin> set (map Aggregation_value [AVERAGE, PEAK]) \<and>
   agg_func ''median'' = func_max \<and>
   player_count_timeseries sample_counts ''OSRS'' (mk_datetime 2024 1 1 0 0)
       (mk_datetime 2024 12 31 0 0) (Granularity_value HOURLY) ''median''
     = Inr [(SText ''2024-01-15 10:00:00'', SInt 30)]"
  by (simp add: player_count_timeseries_def sample_counts_def sample_count_def
        bucket_eval query_eval)

text \<open>
  C8 as amended: a granularity that is not one of the seven values makes every bucketed
  query raise \<^verbatim>\<open>KeyError\<close> before it reads the store, whatever the store, the range and
  the aggregation are; an aggregation other than \<^verbatim>\<open>average\<close> raises nothing and selects
  \<^verbatim>\<open>max\<close>.
\<close>

theorem unknown_granularity_fails_fast:
  assumes "granularity \<notin> set all_granularities"
  shows "time_bucket granularity = Inl KeyError \<and>
         player_count_timeseries session gm start end granularity agg = Inl KeyError \<and>
         combined_total_timeseries session start end granularity agg = Inl KeyError \<and>
         player_count_by_type session start end granularity agg = Inl KeyError \<and>
         player_count_by_region session start end granularity agg = Inl KeyError \<and>
         player_count_by_world session wld start end granularity agg = Inl KeyError \<and>
         (agg \<noteq> Aggregation_value AVERAGE \<longrightarrow> agg_func agg = func_max)"
  using time_bucket_unknown [OF assms]
  by (simp add: player_count_timeseries_def combined_total_timeseries_def
        player_count_by_type_def player_count_by_region_def player_count_by_world_def
        agg_func_def)

theorem unknown_granularity_fails_fast_witness:
  "''yearly'' \<notin> set all_granularities \<and>
   time_bucket ''yearly'' = Inl KeyError \<and>
   player_count_by_type sample_counts (mk_datetime 2024 1 1 0 0) (mk_datetime 2024 12 31 0 0)
       ''yearly'' ''median'' = Inl KeyError \<and>
   agg_func ''median'' = func_max"
proof -
  have h: "''yearly'' \<notin> set all_granularities"
    by (simp add: all_granularities_def)
  show ?thesis
    using h unknown_granularity_fails_fast [OF h, of sample_counts _
        "mk_datetime 2024 1 1 0 0" "mk_datetime 2024 12 31 0 0" "''median''"]
    by simp
qed

section \<open>The weekly bucket\<close>














section \<open>Average and peak of a series\<close>







section \<open>The summing variants\<close>

lemma distinct_map_order_by: "distinct (map f xs) \<Longrightarrow> distinct (map f (order_by k xs))"
proof -
  assume d: "distinct (map f xs)"
  have "mset (map f (order_by k xs)) = mset (map f xs)"
    by (simp add: mset_order_by)
  from mset_eq_imp_distinct_iff [OF this] d show ?thesis by simp
qed

lemma map_Inr_determined:
  "map Inr ys = map f xs \<Longrightarrow> (\<And>x y. x \<in> set xs \<Longrightarrow> f x = Inr y \<Longrightarrow> y = h x) \<Longrightarrow> ys = map h xs"
proof (induction xs arbitrary: ys)
  case Nil
  then show ?case by simp
next
  case (Cons x xs)
  from Cons.prems(1) obtain y ys' where ys: "ys = y # ys'" and fx: "f x = Inr y"
    and rest: "map Inr ys' = map f xs"
    by (cases ys) auto
  have "y = h x" using Cons.prems(2) [of x y] fx by simp
  moreover have "ys' = map h xs"
    using Cons.IH [OF rest] Cons.prems(2) by simp
  ultimately show ?case using ys by simp
qed

lemma sum_row_value:
  assumes "sum_row (k, rs) = Inr y" and "rs \<noteq> []"
  shows "y = (fst k, snd k, SInt (sum_list (map players rs)))"
proof -
  from assms(1) obtain v where v: "sql_sum (map players rs) = Inr v" and y: "y = (fst k, snd k, v)"
    by (auto simp: sum_row_def split: sum.splits)
  from assms(2) have "map players rs \<noteq> []" by simp
  from sql_sum_total [OF v this] y show ?thesis by simp
qed

lemma sum_rows:
  fixes label :: "PlayerCountByWorld \<Rightarrow> string option"
    and bucket :: "datetime option \<Rightarrow> sql_value"
  assumes "collect (map sum_row
             (group_by (\<lambda>r. (bucket (PlayerCountByWorld.timestamp r), label r))
                (\<lambda>k. (sql_sort_key (fst k), snd k)) rows)) = Inr res"
  shows "distinct (map (\<lambda>row. (fst row, fst (snd row))) res) \<and>
         set res = sums_spec bucket label rows"
proof -
  let ?g = "\<lambda>r. (bucket (PlayerCountByWorld.timestamp r), label r)"
  let ?grp = "group_by ?g (\<lambda>k. (sql_sort_key (fst k), snd k)) rows"
  let ?h = "\<lambda>grp. (fst (fst grp), snd (fst grp), SInt (sum_list (map players (snd grp))))"
  have m: "map Inr res = map sum_row ?grp"
    using collect_Inr [OF assms] by simp
  have res: "res = map ?h ?grp"
  proof (rule map_Inr_determined [OF m])
    fix x y
    assume x: "x \<in> set ?grp" and s: "sum_row x = Inr y"
    obtain k rs where xk: "x = (k, rs)" by (cases x)
    with x have "rs \<noteq> []" by (auto dest: group_by_nonempty)
    with s xk show "y = ?h x" by (simp add: sum_row_value)
  qed
  have "map (\<lambda>row. (fst row, fst (snd row))) res = map fst ?grp"
    unfolding res by (simp add: comp_def)
  then have d: "distinct (map (\<lambda>row. (fst row, fst (snd row))) res)"
    by (simp only: group_by_keys_distinct)
  have "set res = ?h ` set ?grp" unfolding res by simp
  also have "\<dots> = sums_spec bucket label rows"
  proof (intro set_eqI iffI)
    fix x
    assume "x \<in> ?h ` set ?grp"
    then obtain k rs where g: "(k, rs) \<in> set ?grp" and x: "x = ?h (k, rs)" by auto
    from g obtain r where r: "r \<in> set rows" and k: "k = ?g r"
      and rs: "rs = filter (\<lambda>q. ?g q = k) rows"
      by (auto simp: group_by_iff)
    from x k rs have "x = (bucket (PlayerCountByWorld.timestamp r), label r,
        SInt (sum_list (map players
          (filter (\<lambda>q. bucket (PlayerCountByWorld.timestamp q)
                          = bucket (PlayerCountByWorld.timestamp r) \<and> label q = label r) rows))))"
      by simp
    with r show "x \<in> sums_spec bucket label rows"
      unfolding sums_spec_def by (rule_tac image_eqI)
  next
    fix x
    assume "x \<in> sums_spec bucket label rows"
    then obtain r where r: "r \<in> set rows"
      and x: "x = (bucket (PlayerCountByWorld.timestamp r), label r,
        SInt (sum_list (map players
          (filter (\<lambda>q. bucket (PlayerCountByWorld.timestamp q)
                          = bucket (PlayerCountByWorld.timestamp r) \<and> label q = label r) rows))))"
      by (auto simp: sums_spec_def)
    let ?rs = "filter (\<lambda>q. ?g q = ?g r) rows"
    from r have g: "(?g r, ?rs) \<in> set ?grp" by (simp add: group_by_iff)
    from x have "x = ?h (?g r, ?rs)" by simp
    from this g show "x \<in> ?h ` set ?grp" by (rule image_eqI)
  qed
  finally have "set res = sums_spec bucket label rows" .
  with d show ?thesis by simp
qed

lemma fold_sum_step_nonneg:
  "0 \<le> s \<Longrightarrow> (\<forall>v\<in>set vs. 0 \<le> v) \<Longrightarrow> s + sum_list vs < 2 ^ 63 \<Longrightarrow>
     fold sum_step vs (s, False) = (s + sum_list vs, False)"
proof (induction vs arbitrary: s)
  case Nil
  then show ?case by simp
next
  case (Cons v vs)
  from Cons.prems have v: "0 \<le> v" and vs: "\<forall>x\<in>set vs. 0 \<le> x" by simp_all
  from vs have "0 \<le> sum_list vs" by (simp add: sum_list_nonneg)
  with Cons.prems v have "in_int64 (s + v)" by (simp add: in_int64_def)
  then have "fold sum_step (v # vs) (s, False) = fold sum_step vs (s + v, False)"
    by (simp add: sum_step_ok)
  also have "\<dots> = (s + v + sum_list vs, False)"
    using Cons.prems v vs by (intro Cons.IH) simp_all
  finally show ?case by (simp add: add.assoc)
qed

lemma sql_sum_nonneg:
  assumes "\<forall>v\<in>set vs. 0 \<le> v" and "sum_list vs < 2 ^ 63"
  shows "\<exists>v. sql_sum vs = Inr v"
proof (cases vs)
  case Nil
  then show ?thesis by (simp add: sql_sum_def)
next
  case (Cons x xs)
  from assms have "fold sum_step vs (0, False) = (0 + sum_list vs, False)"
    by (intro fold_sum_step_nonneg) simp_all
  with Cons show ?thesis by (simp add: sql_sum_def)
qed

lemma sum_list_filter_le:
  "(\<forall>r\<in>set xs. 0 \<le> f r) \<Longrightarrow> sum_list (map f (filter P xs)) \<le> (sum_list (map f xs) :: int)"
  by (induction xs) auto

lemma collect_all_Inr:
  "(\<forall>x\<in>set xs. \<exists>y. f x = Inr y) \<Longrightarrow> \<exists>ys. collect (map f xs) = Inr ys"
proof (induction xs)
  case Nil
  then show ?case by simp
next
  case (Cons x xs)
  then obtain y ys where "f x = Inr y" and "collect (map f xs) = Inr ys" by auto
  then show ?case by simp
qed

lemma sum_rows_return:
  fixes label :: "PlayerCountByWorld \<Rightarrow> string option"
  assumes nn: "\<forall>r\<in>set rows. 0 \<le> players r" and lt: "sum_list (map players rows) < 2 ^ 63"
  shows "\<exists>res. collect (map sum_row
             (group_by (\<lambda>r. (bucket (PlayerCountByWorld.timestamp r), label r))
                (\<lambda>k. (sql_sort_key (fst k), snd k)) rows)) = Inr res"
proof (rule collect_all_Inr, rule ballI)
  fix x
  assume m: "x \<in> set (group_by (\<lambda>r. (bucket (PlayerCountByWorld.timestamp r), label r))
                (\<lambda>k. (sql_sort_key (fst k), snd k)) rows)"
  obtain k rs where xk: "x = (k, rs)" by (cases x)
  from m have "rs = filter (\<lambda>r. (bucket (PlayerCountByWorld.timestamp r), label r) = k) rows"
    unfolding xk group_by_iff by simp
  with xk have x: "x = (k, filter (\<lambda>r. (bucket (PlayerCountByWorld.timestamp r), label r) = k) rows)"
    by simp
  let ?rs = "filter (\<lambda>r. (bucket (PlayerCountByWorld.timestamp r), label r) = k) rows"
  from nn have a: "\<forall>v\<in>set (map players ?rs). 0 \<le> v" by auto
  have "sum_list (map players ?rs) \<le> sum_list (map players rows)"
    using nn by (rule sum_list_filter_le)
  with lt have b: "sum_list (map players ?rs) < 2 ^ 63" by linarith
  from sql_sum_nonneg [OF a b] obtain v where "sql_sum (map players ?rs) = Inr v" ..
  with x show "\<exists>y. sum_row x = Inr y" by (simp add: sum_row_def)
qed

text \<open>
  Claim C4: \<^verbatim>\<open>player_count_by_type\<close> and \<^verbatim>\<open>player_count_by_region\<close> give the same
  result for \<^verbatim>\<open>AVERAGE\<close> and for \<^verbatim>\<open>PEAK\<close> (indeed for any \<open>agg\<close>); whenever they return
  rows, there is exactly one row per bucket and label, holding the sum of the players of
  the rows of the range with that bucket and label; and they do return rows when the
  player counts are non-negative and their total stays below \<open>2\<^sup>6\<^sup>3\<close>.
\<close>

theorem sum_variants_ignore_aggregation:
  "player_count_by_type session start end granularity (Aggregation_value AVERAGE)
     = player_count_by_type session start end granularity (Aggregation_value PEAK) \<and>
   player_count_by_region session start end granularity (Aggregation_value AVERAGE)
     = player_count_by_region session start end granularity (Aggregation_value PEAK) \<and>
   player_count_by_type session start end granularity agg
     = player_count_by_type session start end granularity agg' \<and>
   player_count_by_region session start end granularity agg
     = player_count_by_region session start end granularity agg' \<and>
   (time_bucket granularity = Inr bucket \<longrightarrow>
      (\<forall>rows. player_count_by_type session start end granularity agg = Inr rows \<longrightarrow>
         distinct (map (\<lambda>row. (fst row, fst (snd row))) rows) \<and>
         set rows = sums_spec bucket wtype (worlds_between session start end)) \<and>
      (\<forall>rows. player_count_by_region session start end granularity agg = Inr rows \<longrightarrow>
         distinct (map (\<lambda>row. (fst row, fst (snd row))) rows) \<and>
         set rows = sums_spec bucket location (worlds_between session start end)) \<and>
      ((\<forall>r\<in>set (playercountbyworld session). 0 \<le> players r) \<and>
       sum_list (map players (playercountbyworld session)) < 2 ^ 63 \<longrightarrow>
         (\<exists>rows. player_count_by_type session start end granularity agg = Inr rows) \<and>
         (\<exists>rows. player_count_by_region session start end granularity agg = Inr rows)))"
proof (intro conjI impI allI)
  show "player_count_by_type session start end granularity (Aggregation_value AVERAGE)
     = player_count_by_type session start end granularity (Aggregation_value PEAK)"
    by (simp add: player_count_by_type_def)
  show "player_count_by_region session start end granularity (Aggregation_value AVERAGE)
     = player_count_by_region session start end granularity (Aggregation_value PEAK)"
    by (simp add: player_count_by_region_def)
  show "player_count_by_type session start end granularity agg
     = player_count_by_type session start end granularity agg'"
    by (simp add: player_count_by_type_def)
  show "player_count_by_region session start end granularity agg
     = player_count_by_region session start end granularity agg'"
    by (simp add: player_count_by_region_def)
next
  fix rows
  assume b: "time_bucket granularity = Inr bucket"
    and r: "player_count_by_type session start end granularity agg = Inr rows"
  from r b obtain res where
    c: "collect (map sum_row
          (group_by (\<lambda>r. (bucket (PlayerCountByWorld.timestamp r), wtype r))
             (\<lambda>k. (sql_sort_key (fst k), snd k)) (worlds_between session start end))) = Inr res"
    and rows: "rows = order_by (\<lambda>row. sql_sort_key (fst row)) res"
    by (auto simp: player_count_by_type_def worlds_between_def Let_def split: sum.splits)
  from sum_rows [OF c] rows
  show "distinct (map (\<lambda>row. (fst row, fst (snd row))) rows)"
    and "set rows = sums_spec bucket wtype (worlds_between session start end)"
    by (simp_all add: distinct_map_order_by set_order_by)
next
  fix rows
  assume b: "time_bucket granularity = Inr bucket"
    and r: "player_count_by_region session start end granularity agg = Inr rows"
  from r b obtain res where
    c: "collect (map sum_row
          (group_by (\<lambda>r. (bucket (PlayerCountByWorld.timestamp r), location r))
             (\<lambda>k. (sql_sort_key (fst k), snd k)) (worlds_between session start end))) = Inr res"
    and rows: "rows = order_by (\<lambda>row. sql_sort_key (fst row)) res"
    by (auto simp: player_count_by_region_def worlds_between_def Let_def split: sum.splits)
  from sum_rows [OF c] rows
  show "distinct (map (\<lambda>row. (fst row, fst (snd row))) rows)"
    and "set rows = sums_spec bucket location (worlds_between session start end)"
    by (simp_all add: distinct_map_order_by set_order_by)
next
  assume b: "time_bucket granularity = Inr bucket"
    and h: "(\<forall>r\<in>set (playercountbyworld session). 0 \<le> players r) \<and>
       sum_list (map players (playercountbyworld session)) < 2 ^ 63"
  let ?rows = "worlds_between session start end"
  from h have nn: "\<forall>r\<in>set ?rows. 0 \<le> players r"
    by (simp add: worlds_between_def)
  have "sum_list (map players ?rows) \<le> sum_list (map players (playercountbyworld session))"
    unfolding worlds_between_def using h by (intro sum_list_filter_le) simp
  with h have lt: "sum_list (map players ?rows) < 2 ^ 63" by linarith
  from sum_rows_return [OF nn lt, of bucket wtype]
  show "\<exists>rows. player_count_by_type session start end granularity agg = Inr rows"
    using b by (auto simp: player_count_by_type_def worlds_between_def Let_def)
  from sum_rows_return [OF nn lt, of bucket location]
  show "\<exists>rows. player_count_by_region session start end granularity agg = Inr rows"
    using b by (auto simp: player_count_by_region_def worlds_between_def Let_def)
qed

theorem sum_variants_ignore_aggregation_witness:
  "time_bucket (Granularity_value HOURLY) = Inr (sql_strftime ''%Y-%m-%d %H:00:00'') \<and>
   list_all (\<lambda>r. 0 \<le> players r) (playercountbyworld sample_mixed) \<and>
   sum_list (map players (playercountbyworld sample_mixed)) < 2 ^ 63 \<and>
   player_count_by_type sample_mixed (mk_datetime 2024 1 1 0 0) (mk_datetime 2024 12 31 0 0)
       (Granularity_value HOURLY) (Aggregation_value AVERAGE)
     = Inr [(SText ''2024-01-15 10:00:00'', Some ''Free'', SInt 30),
            (SText ''2024-01-15 10:00:00'', Some ''Members'', SInt 30)] \<and>
   player_count_by_type sample_mixed (mk_datetime 2024 1 1 0 0) (mk_datetime 2024 12 31 0 0)
       (Granularity_value HOURLY) (Aggregation_value PEAK)
     = Inr [(SText ''2024-01-15 10:00:00'', Some ''Free'', SInt 30),
            (SText ''2024-01-15 10:00:00'', Some ''Members'', SInt 30)] \<and>
   sums_spec (sql_strftime ''%Y-%m-%d %H:00:00'') wtype
       (worlds_between sample_mixed (mk_datetime 2024 1 1 0 0) (mk_datetime 2024 12 31 0 0))
     = {(SText ''2024-01-15 10:00:00'', Some ''Free'', SInt 30),
        (SText ''2024-01-15 10:00:00'', Some ''Members'', SInt 30)}"
proof -
  let ?avg = "player_count_by_type sample_mixed (mk_datetime 2024 1 1 0 0)
       (mk_datetime 2024 12 31 0 0) (Granularity_value HOURLY) (Aggregation_value AVERAGE)"
  let ?rows = "[(SText ''2024-01-15 10:00:00'', Some ''Free'', SInt 30),
            (SText ''2024-01-15 10:00:00'', Some ''Members'', SInt (30::int))]"
  have h: "time_bucket (Granularity_value HOURLY) = Inr (sql_strftime ''%Y-%m-%d %H:00:00'')"
    by (simp add: time_bucket_def BUCKET_FORMAT_def)
  have n: "list_all (\<lambda>r. 0 \<le> players r) (playercountbyworld sample_mixed)"
    by (simp add: sample_mixed_def sample_world_def)
  have l: "sum_list (map players (playercountbyworld sample_mixed)) < 2 ^ 63"
    by (simp add: sample_mixed_def sample_world_def)
  have e: "?avg = Inr ?rows"
    by (simp add: player_count_by_type_def sample_mixed_def sample_world_def
          bucket_eval query_eval)
  note t = sum_variants_ignore_aggregation [of sample_mixed "mk_datetime 2024 1 1 0 0"
      "mk_datetime 2024 12 31 0 0" "Granularity_value HOURLY" "Aggregation_value AVERAGE"
      "Aggregation_value PEAK" "sql_strftime ''%Y-%m-%d %H:00:00''"]
  from t have p: "?avg = player_count_by_type sample_mixed (mk_datetime 2024 1 1 0 0)
       (mk_datetime 2024 12 31 0 0) (Granularity_value HOURLY) (Aggregation_value PEAK)"
    by (rule conjunct1)
  from t h e have "set ?rows = sums_spec (sql_strftime ''%Y-%m-%d %H:00:00'') wtype
       (worlds_between sample_mixed (mk_datetime 2024 1 1 0 0) (mk_datetime 2024 12 31 0 0))"
    by blast
  then have s: "sums_spec (sql_strftime ''%Y-%m-%d %H:00:00'') wtype
       (worlds_between sample_mixed (mk_datetime 2024 1 1 0 0) (mk_datetime 2024 12 31 0 0))
     = {(SText ''2024-01-15 10:00:00'', Some ''Free'', SInt 30),
        (SText ''2024-01-15 10:00:00'', Some ''Members'', SInt 30)}"
    by simp
  from p e have e': "player_count_by_type sample_mixed (mk_datetime 2024 1 1 0 0)
       (mk_datetime 2024 12 31 0 0) (Granularity_value HOURLY) (Aggregation_value PEAK) = Inr ?rows"
    by simp
  from h n l e e' s show ?thesis by (intro conjI)
qed

section \<open>The snapshot selector\<close>

lemma world_snapshot_at:
  "world_snapshot session (Some t)
     = order_by_desc (\<lambda>row. fst (snd row))
         (map snapshot_columns
            (filter (\<lambda>r. PlayerCountByWorld.timestamp r = Some t) (playercountbyworld session)))"
  by (simp add: world_snapshot_def)

lemma world_snapshot_mset:
  "mset (world_snapshot session (Some t))
     = mset (map snapshot_columns
         (filter (\<lambda>r. PlayerCountByWorld.timestamp r = Some t) (playercountbyworld session)))"
  by (simp only: world_snapshot_at mset_order_by_desc)

lemma world_snapshot_descending:
  "sorted (rev (map (\<lambda>row. fst (snd row)) (world_snapshot session ts)))"
proof (cases "world_snapshot session ts = []")
  case True
  then show ?thesis by simp
next
  case False
  then obtain t where "world_snapshot session ts
     = order_by_desc (\<lambda>row. fst (snd row))
         (map snapshot_columns
            (filter (\<lambda>r. PlayerCountByWorld.timestamp r = Some t) (playercountbyworld session)))"
    by (auto simp: world_snapshot_def split: option.splits)
  then show ?thesis by (simp only: sorted_order_by_desc)
qed

lemma snapshot_columns_assign_ids:
  "map snapshot_columns (filter (\<lambda>r. PlayerCountByWorld.timestamp r = c) (assign_ids n objs))
     = map snapshot_columns (filter (\<lambda>r. PlayerCountByWorld.timestamp r = c) objs)"
  by (induction objs arbitrary: n) (simp_all add: snapshot_columns_def)

text \<open>
  Claim C6: with an explicit timestamp, \<^verbatim>\<open>world_snapshot\<close> returns (in some order) exactly
  the rows whose timestamp equals it; when no row has that timestamp the result is the
  empty list, whatever older rows exist; and after adding rows that all carry a timestamp
  not yet in the store, the snapshot at that timestamp is exactly the added rows.
\<close>

theorem snapshot_is_exact_match:
  "mset (world_snapshot session (Some ts))
     = mset (map snapshot_columns
         (filter (\<lambda>r. PlayerCountByWorld.timestamp r = Some ts) (playercountbyworld session))) \<and>
   ((\<forall>r\<in>set (playercountbyworld session). PlayerCountByWorld.timestamp r \<noteq> Some ts) \<longrightarrow>
      world_snapshot session (Some ts) = []) \<and>
   ((\<forall>r\<in>set (playercountbyworld session). PlayerCountByWorld.timestamp r \<noteq> Some ts) \<and>
    (\<forall>ob\<in>set objs. PlayerCountByWorld.timestamp ob = Some ts) \<longrightarrow>
      mset (world_snapshot (add_all session objs) (Some ts)) = mset (map snapshot_columns objs) \<and>
      length (world_snapshot (add_all session objs) (Some ts)) = length objs)"
proof (intro conjI impI)
  show "mset (world_snapshot session (Some ts))
     = mset (map snapshot_columns
         (filter (\<lambda>r. PlayerCountByWorld.timestamp r = Some ts) (playercountbyworld session)))"
    by (rule world_snapshot_mset)
next
  assume "\<forall>r\<in>set (playercountbyworld session). PlayerCountByWorld.timestamp r \<noteq> Some ts"
  then have "filter (\<lambda>r. PlayerCountByWorld.timestamp r = Some ts) (playercountbyworld session) = []"
    by (simp add: filter_empty_conv)
  then show "world_snapshot session (Some ts) = []"
    by (simp add: world_snapshot_at order_by_desc_def)
next
  assume a: "(\<forall>r\<in>set (playercountbyworld session). PlayerCountByWorld.timestamp r \<noteq> Some ts) \<and>
    (\<forall>ob\<in>set objs. PlayerCountByWorld.timestamp ob = Some ts)"
  then have old: "filter (\<lambda>r. PlayerCountByWorld.timestamp r = Some ts) (playercountbyworld session) = []"
    by (simp add: filter_empty_conv)
  from a have new: "filter (\<lambda>r. PlayerCountByWorld.timestamp r = Some ts) objs = objs"
    by (simp add: filter_id_conv)
  have "mset (world_snapshot (add_all session objs) (Some ts))
      = mset (map snapshot_columns
          (filter (\<lambda>r. PlayerCountByWorld.timestamp r = Some ts)
             (playercountbyworld (add_all session objs))))"
    by (rule world_snapshot_mset)
  also have "\<dots> = mset (map snapshot_columns objs)"
    by (simp add: add_all_def old snapshot_columns_assign_ids new)
  finally show m: "mset (world_snapshot (add_all session objs) (Some ts))
      = mset (map snapshot_columns objs)" .
  from m have "size (mset (world_snapshot (add_all session objs) (Some ts)))
      = size (mset (map snapshot_columns objs))" by simp
  then show "length (world_snapshot (add_all session objs) (Some ts)) = length objs"
    by simp
qed

theorem snapshot_is_exact_match_witness:
  "list_all (\<lambda>r. PlayerCountByWorld.timestamp r \<noteq> Some (mk_datetime 2024 1 15 10 5))
      (playercountbyworld sample_store) \<and>
   list_all (\<lambda>ob. PlayerCountByWorld.timestamp ob = Some (mk_datetime 2024 1 15 10 5))
      sample_scrape \<and>
   world_snapshot sample_store (Some (mk_datetime 2024 1 15 10 5)) = [] \<and>
   mset (world_snapshot (add_all sample_store sample_scrape) (Some (mk_datetime 2024 1 15 10 5)))
     = mset (map snapshot_columns sample_scrape) \<and>
   length (world_snapshot (add_all sample_store sample_scrape) (Some (mk_datetime 2024 1 15 10 5)))
     = 2"
proof -
  have a: "\<forall>r\<in>set (playercountbyworld sample_store).
      PlayerCountByWorld.timestamp r \<noteq> Some (mk_datetime 2024 1 15 10 5)"
    by (simp add: sample_store_def sample_world_def mk_datetime_def)
  have b: "\<forall>ob\<in>set sample_scrape.
      PlayerCountByWorld.timestamp ob = Some (mk_datetime 2024 1 15 10 5)"
    by (simp add: sample_scrape_def sample_world_def)
  have c: "length sample_scrape = 2" by (simp add: sample_scrape_def)
  from a b c snapshot_is_exact_match [of sample_store "mk_datetime 2024 1 15 10 5" sample_scrape]
  show ?thesis by (simp add: list_all_iff)
qed

lemma dt_le_refl: "dt_le t t"
  by (simp add: dt_le_def)

lemma dt_le_trans: "dt_le a b \<Longrightarrow> dt_le b c \<Longrightarrow> dt_le a c"
  unfolding dt_le_def by (rule order_trans)

lemma dt_le_total: "\<not> dt_le a b \<Longrightarrow> dt_le b a"
  unfolding dt_le_def by (rule linorder_le_cases [of "dt_key a" "dt_key b"]) simp_all

lemma max_step_simps:
  "max_step None acc = acc"
  "max_step (Some t) None = Some t"
  "max_step (Some t) (Some a) = Some (if dt_le t a then a else t)"
  by (simp_all add: max_step_def)

lemma fold_max_step_Some: "\<exists>m. fold max_step cols (Some a) = Some m"
proof (induction cols arbitrary: a)
  case Nil
  then show ?case by simp
next
  case (Cons c cols)
  then show ?case by (cases c) (simp_all add: max_step_simps)
qed

lemma fold_max_step_None:
  "fold max_step cols None = None \<longleftrightarrow> (\<forall>c\<in>set cols. c = None)"
proof (induction cols)
  case Nil
  then show ?case by simp
next
  case (Cons c cols)
  show ?case
  proof (cases c)
    case None
    with Cons show ?thesis by (simp add: max_step_simps)
  next
    case (Some t)
    from fold_max_step_Some [of cols t] Some show ?thesis
      by (auto simp: max_step_simps)
  qed
qed

lemma fold_max_step_member:
  "fold max_step cols acc = Some m \<Longrightarrow> Some m \<in> set cols \<or> acc = Some m"
proof (induction cols arbitrary: acc)
  case Nil
  then show ?case by simp
next
  case (Cons c cols)
  from Cons.prems have "fold max_step cols (max_step c acc) = Some m" by simp
  from Cons.IH [OF this] show ?case
    by (cases c; cases acc) (auto simp: max_step_simps split: if_splits)
qed

lemma fold_max_step_upper:
  "fold max_step cols acc = Some m \<Longrightarrow>
     (\<forall>a. acc = Some a \<longrightarrow> dt_le a m) \<and> (\<forall>t. Some t \<in> set cols \<longrightarrow> dt_le t m)"
proof (induction cols arbitrary: acc)
  case Nil
  then show ?case by (simp add: dt_le_refl)
next
  case (Cons c cols)
  from Cons.prems have f: "fold max_step cols (max_step c acc) = Some m" by simp
  note ih = Cons.IH [OF f]
  show ?case
  proof (cases c)
    case None
    with ih show ?thesis by (simp add: max_step_simps)
  next
    case (Some t)
    show ?thesis
    proof (cases acc)
      case None
      with Some ih show ?thesis by (auto simp: max_step_simps)
    next
      case (Some a)
      show ?thesis
      proof (cases "dt_le t a")
        case True
        with \<open>c = Some t\<close> Some ih have am: "dt_le a m" and rest: "\<forall>t. Some t \<in> set cols \<longrightarrow> dt_le t m"
          by (simp_all add: max_step_simps)
        from True am have "dt_le t m" by (rule dt_le_trans)
        with am rest \<open>c = Some t\<close> Some show ?thesis by auto
      next
        case False
        with \<open>c = Some t\<close> Some ih have tm: "dt_le t m" and rest: "\<forall>t. Some t \<in> set cols \<longrightarrow> dt_le t m"
          by (simp_all add: max_step_simps)
        from False have "dt_le a t" by (rule dt_le_total)
        from this tm have "dt_le a m" by (rule dt_le_trans)
        with tm rest \<open>c = Some t\<close> Some show ?thesis by auto
      qed
    qed
  qed
qed

text \<open>
  Claim C7: without a timestamp, \<^verbatim>\<open>world_snapshot\<close> returns the empty list when the store
  has no world observation; otherwise (some row has a timestamp) it takes the largest
  timestamp \<open>m\<close> of the table and returns what it returns for \<open>m\<close>, that is exactly the rows
  at \<open>m\<close>; and its result is ordered by player count, largest first.
\<close>

theorem snapshot_defaults_to_latest:
  "(playercountbyworld session = [] \<longrightarrow> world_snapshot session None = []) \<and>
   ((\<exists>r\<in>set (playercountbyworld session). PlayerCountByWorld.timestamp r \<noteq> None) \<longrightarrow>
      (\<exists>m. (\<exists>q\<in>set (playercountbyworld session). PlayerCountByWorld.timestamp q = Some m) \<and>
           (\<forall>q\<in>set (playercountbyworld session). \<forall>t.
               PlayerCountByWorld.timestamp q = Some t \<longrightarrow> dt_le t m) \<and>
           world_snapshot session None = world_snapshot session (Some m) \<and>
           mset (world_snapshot session None)
             = mset (map snapshot_columns
                 (filter (\<lambda>q. PlayerCountByWorld.timestamp q = Some m)
                    (playercountbyworld session))))) \<and>
   sorted (rev (map (\<lambda>row. fst (snd row)) (world_snapshot session None)))"
proof (intro conjI impI)
  assume "playercountbyworld session = []"
  then show "world_snapshot session None = []"
    by (simp add: world_snapshot_def sql_max_timestamp_def)
next
  let ?cols = "map PlayerCountByWorld.timestamp (playercountbyworld session)"
  assume "\<exists>r\<in>set (playercountbyworld session). PlayerCountByWorld.timestamp r \<noteq> None"
  then have "\<not> (\<forall>c\<in>set ?cols. c = None)" by auto
  then have "fold max_step ?cols None \<noteq> None"
    using fold_max_step_None [of ?cols] by blast
  then obtain m where m: "fold max_step ?cols None = Some m" by auto
  from fold_max_step_member [OF m]
  have mem: "\<exists>q\<in>set (playercountbyworld session). PlayerCountByWorld.timestamp q = Some m"
    by auto
  from fold_max_step_upper [OF m]
  have up: "\<forall>q\<in>set (playercountbyworld session). \<forall>t.
               PlayerCountByWorld.timestamp q = Some t \<longrightarrow> dt_le t m"
    by (metis image_eqI set_map)
  from m have eq: "world_snapshot session None = world_snapshot session (Some m)"
    by (simp add: world_snapshot_def sql_max_timestamp_def)
  from eq have ms: "mset (world_snapshot session None)
             = mset (map snapshot_columns
                 (filter (\<lambda>q. PlayerCountByWorld.timestamp q = Some m)
                    (playercountbyworld session)))"
    by (simp only: world_snapshot_mset)
  from mem up eq ms
  show "\<exists>m. (\<exists>q\<in>set (playercountbyworld session). PlayerCountByWorld.timestamp q = Some m) \<and>
           (\<forall>q\<in>set (playercountbyworld session). \<forall>t.
               PlayerCountByWorld.timestamp q = Some t \<longrightarrow> dt_le t m) \<and>
           world_snapshot session None = world_snapshot session (Some m) \<and>
           mset (world_snapshot session None)
             = mset (map snapshot_columns
                 (filter (\<lambda>q. PlayerCountByWorld.timestamp q = Some m)
                    (playercountbyworld session)))"
    by blast
next
  show "sorted (rev (map (\<lambda>row. fst (snd row)) (world_snapshot session None)))"
    by (rule world_snapshot_descending)
qed

theorem snapshot_defaults_to_latest_witness:
  "(\<exists>r\<in>set (playercountbyworld sample_two_scrapes). PlayerCountByWorld.timestamp r \<noteq> None) \<and>
   world_snapshot sample_two_scrapes None
     = world_snapshot sample_two_scrapes (Some (mk_datetime 2024 1 15 10 5)) \<and>
   world_snapshot sample_two_scrapes None
     = [(''302'', 250, Some ''Germany'', Some ''Members'', Some ''No Activity'',
           Some (mk_datetime 2024 1 15 10 5)),
        (''301'', 10, Some ''Germany'', Some ''Members'', Some ''No Activity'',
           Some (mk_datetime 2024 1 15 10 5))] \<and>
   sorted (rev (map (\<lambda>row. fst (snd row)) (world_snapshot sample_two_scrapes None))) \<and>
   world_snapshot \<lparr>playercount = [], playercountbyworld = []\<rparr> None = []"
proof -
  have a: "\<exists>r\<in>set (playercountbyworld sample_two_scrapes). PlayerCountByWorld.timestamp r \<noteq> None"
    by (simp add: sample_two_scrapes_def sample_world_def)
  have e: "world_snapshot sample_two_scrapes None
     = [(''302'', 250, Some ''Germany'', Some ''Members'', Some ''No Activity'',
           Some (mk_datetime 2024 1 15 10 5)),
        (''301'', 10, Some ''Germany'', Some ''Members'', Some ''No Activity'',
           Some (mk_datetime 2024 1 15 10 5))]"
    by (simp add: world_snapshot_def sql_max_timestamp_def max_step_simps sample_two_scrapes_def
          sample_scrape_def sample_world_def snapshot_columns_def order_by_desc_def
          dt_le_def dt_key_def mk_datetime_def)
  have e5: "world_snapshot sample_two_scrapes (Some (mk_datetime 2024 1 15 10 5))
     = [(''302'', 250, Some ''Germany'', Some ''Members'', Some ''No Activity'',
           Some (mk_datetime 2024 1 15 10 5)),
        (''301'', 10, Some ''Germany'', Some ''Members'', Some ''No Activity'',
           Some (mk_datetime 2024 1 15 10 5))]"
    by (simp add: world_snapshot_def sample_two_scrapes_def
          sample_scrape_def sample_world_def snapshot_columns_def order_by_desc_def
          mk_datetime_def)
  have n: "playercountbyworld \<lparr>playercount = [], playercountbyworld = []\<rparr> = []" by simp
  from snapshot_defaults_to_latest [of sample_two_scrapes]
  have s: "sorted (rev (map (\<lambda>row. fst (snd row)) (world_snapshot sample_two_scrapes None)))"
    by blast
  from snapshot_defaults_to_latest [of "\<lparr>playercount = [], playercountbyworld = []\<rparr>"] n
  have z: "world_snapshot \<lparr>playercount = [], playercountbyworld = []\<rparr> None = []"
    by blast
  from a e e5 s z show ?thesis by simp
qed

section \<open>Totals by activity\<close>

lemma distinct_key_at_most_once:
  "distinct (map f xs) \<Longrightarrow> length (filter (\<lambda>x. f x = a) xs) \<le> 1"
proof (induction xs)
  case Nil
  then show ?case by simp
next
  case (Cons x xs)
  show ?case
  proof (cases "f x = a")
    case True
    with Cons.prems have "\<forall>y\<in>set xs. f y \<noteq> a" by (auto simp: image_iff)
    then have "filter (\<lambda>x. f x = a) xs = []" by (simp add: filter_empty_conv)
    with True show ?thesis by simp
  next
    case False
    with Cons show ?thesis by simp
  qed
qed

lemma activity_total_value:
  assumes "activity_total (k, rs) = Inr y" and "rs \<noteq> []"
  shows "y = (k, sum_list (map players rs), int (length rs))"
proof -
  from assms(1) obtain v where v: "sql_sum (map players rs) = Inr v"
    by (auto simp: activity_total_def split: sum.splits)
  from assms(2) have "map players rs \<noteq> []" by simp
  from sql_sum_total [OF v this] have "v = SInt (sum_list (map players rs))" .
  with v assms(1) show ?thesis by (simp add: activity_total_def)
qed

lemma activity_rows:
  assumes "player_count_by_activity session start end = Inr rows"
  shows "mset rows
           = mset (map (\<lambda>grp. (fst grp, sum_list (map players (snd grp)), int (length (snd grp))))
               (group_by activity (\<lambda>k. k) (worlds_between session start end)))"
    and "sorted (rev (map (\<lambda>row. fst (snd row)) rows))"
proof -
  let ?grp = "group_by activity (\<lambda>k. k) (worlds_between session start end)"
  let ?h = "\<lambda>grp. (fst grp, sum_list (map players (snd grp)), int (length (snd grp)))"
  from assms obtain res where c: "collect (map activity_total ?grp) = Inr res"
    and rows: "rows = order_by_desc (\<lambda>row. fst (snd row)) res"
    by (auto simp: player_count_by_activity_def worlds_between_def Let_def split: sum.splits)
  have m: "map Inr res = map activity_total ?grp"
    using collect_Inr [OF c] by simp
  have res: "res = map ?h ?grp"
  proof (rule map_Inr_determined [OF m])
    fix x y
    assume x: "x \<in> set ?grp" and s: "activity_total x = Inr y"
    obtain k rs where xk: "x = (k, rs)" by (cases x)
    with x have "rs \<noteq> []" by (auto dest: group_by_nonempty)
    with s xk show "y = ?h x" by (simp add: activity_total_value)
  qed
  from rows res show "mset rows = mset (map ?h ?grp)"
    by (simp add: mset_order_by_desc)
  from rows show "sorted (rev (map (\<lambda>row. fst (snd row)) rows))"
    by (simp only: sorted_order_by_desc)
qed

lemma activity_labels:
  assumes "player_count_by_activity session start end = Inr rows"
  shows "distinct (map fst rows)"
    and "fst ` set rows = activity ` set (worlds_between session start end)"
proof -
  let ?grp = "group_by activity (\<lambda>k. k) (worlds_between session start end)"
  let ?h = "\<lambda>grp. (fst grp, sum_list (map players (snd grp)), int (length (snd grp)))"
  have "mset (map fst rows) = image_mset fst (mset rows)" by simp
  also have "\<dots> = image_mset fst (mset (map ?h ?grp))"
    by (simp only: activity_rows(1) [OF assms])
  also have "\<dots> = mset (map fst (map ?h ?grp))" by (simp only: mset_map)
  also have "\<dots> = mset (map fst ?grp)" by (simp add: comp_def)
  finally have e: "mset (map fst rows) = mset (map fst ?grp)" .
  from mset_eq_imp_distinct_iff [OF e] show "distinct (map fst rows)"
    by (simp only: group_by_keys_distinct)
  from e have "set (map fst rows) = set (map fst ?grp)" by (rule mset_eq_setD)
  then show "fst ` set rows = activity ` set (worlds_between session start end)"
    by (simp add: group_by_def comp_def)
qed

text \<open>
  Claim C9 says that for every store the rows with a missing or placeholder activity end
  up in one group. The query groups by the stored value as it is, so a row whose activity
  is NULL and a row labelled \<^verbatim>\<open>No Activity\<close> make two groups.
\<close>

theorem missing_activity_is_a_group_of_its_own:
  "player_count_by_activity sample_split (mk_datetime 2024 1 1 0 0) (mk_datetime 2024 12 31 0 0)
     = Inr [(Some ''No Activity'', 30, 1), (None, 10, 1)]"
  by (simp add: player_count_by_activity_def sample_split_def sample_world_def
        bucket_eval query_eval)

text \<open>
  C9 as amended: the result has one row per distinct stored activity value of the range.
  The placeholders are merged where the rows are written: a store in which every row
  carries a label as \<^verbatim>\<open>players_by_world\<close> rewrites it has no group for NULL, \<^verbatim>\<open>-\<close> or the
  empty text, and at most one group \<^verbatim>\<open>No Activity\<close>.
\<close>

theorem activity_groups_follow_stored_labels:
  assumes "player_count_by_activity session start end = Inr rows"
  shows "distinct (map fst rows) \<and>
         fst ` set rows = activity ` set (worlds_between session start end) \<and>
         ((\<forall>r\<in>set (playercountbyworld session). \<exists>raw. activity r = Some (normalize_activity raw)) \<longrightarrow>
            (\<forall>row\<in>set rows. fst row \<noteq> None \<and> fst row \<noteq> Some ''-'' \<and> fst row \<noteq> Some []) \<and>
            length (filter (\<lambda>row. fst row = Some ''No Activity'') rows) \<le> 1)"
proof (intro conjI impI)
  show d: "distinct (map fst rows)" by (rule activity_labels(1) [OF assms])
  show l: "fst ` set rows = activity ` set (worlds_between session start end)"
    by (rule activity_labels(2) [OF assms])
  assume n: "\<forall>r\<in>set (playercountbyworld session). \<exists>raw. activity r = Some (normalize_activity raw)"
  show "\<forall>row\<in>set rows. fst row \<noteq> None \<and> fst row \<noteq> Some ''-'' \<and> fst row \<noteq> Some []"
  proof
    fix row
    assume "row \<in> set rows"
    then have "fst row \<in> activity ` set (worlds_between session start end)"
      using l by blast
    then obtain r where "r \<in> set (playercountbyworld session)" and "fst row = activity r"
      by (auto simp: worlds_between_def)
    with n obtain raw where "fst row = Some (normalize_activity raw)" by auto
    then show "fst row \<noteq> None \<and> fst row \<noteq> Some ''-'' \<and> fst row \<noteq> Some []"
      by (auto simp: normalize_activity_def split: option.splits if_splits)
  qed
  from d show "length (filter (\<lambda>row. fst row = Some ''No Activity'') rows) \<le> 1"
    by (rule distinct_key_at_most_once)
qed

lemma main_rows_normalized:
  "\<forall>r\<in>set (assign_ids n (main_world_rows ts df)). \<exists>raw. activity r = Some (normalize_activity raw)"
proof (induction df arbitrary: n)
  case Nil
  then show ?case by (simp add: main_world_rows_def)
next
  case (Cons x df)
  obtain w p loc ty act where x: "x = (w, p, loc, ty, act)" by (cases x)
  have "\<exists>raw. Some (normalize_activity act) = Some (normalize_activity raw)" by blast
  with Cons [of "n + 1"] x show ?case by (simp add: main_world_rows_def)
qed

lemma sample_scraped_by_activity:
  "player_count_by_activity sample_scraped (mk_datetime 2024 1 1 0 0) (mk_datetime 2024 12 31 0 0)
     = Inr [(Some ''Bounty Hunter'', 100, 1), (Some ''No Activity'', 60, 3)]"
  by (simp add: player_count_by_activity_def sample_scraped_def add_all_def next_id_def
        main_world_rows_def normalize_activity_def bucket_eval query_eval)

theorem activity_groups_follow_stored_labels_witness:
  "player_count_by_activity sample_scraped (mk_datetime 2024 1 1 0 0) (mk_datetime 2024 12 31 0 0)
     = Inr [(Some ''Bounty Hunter'', 100, 1), (Some ''No Activity'', 60, 3)] \<and>
   list_all (\<lambda>r. \<exists>raw. activity r = Some (normalize_activity raw))
      (playercountbyworld sample_scraped) \<and>
   distinct (map fst [(Some ''Bounty Hunter'', 100::int, 1::int), (Some ''No Activity'', 60, 3)]) \<and>
   length (filter (\<lambda>row. fst row = Some ''No Activity'')
             [(Some ''Bounty Hunter'', 100::int, 1::int), (Some ''No Activity'', 60, 3)]) \<le> 1"
proof -
  have n: "\<forall>r\<in>set (playercountbyworld sample_scraped).
             \<exists>raw. activity r = Some (normalize_activity raw)"
    unfolding sample_scraped_def add_all_def using main_rows_normalized by simp
  from activity_groups_follow_stored_labels [OF sample_scraped_by_activity] n
  have "distinct (map fst [(Some ''Bounty Hunter'', 100::int, 1::int), (Some ''No Activity'', 60, 3)]) \<and>
    length (filter (\<lambda>row. fst row = Some ''No Activity'')
             [(Some ''Bounty Hunter'', 100::int, 1::int), (Some ''No Activity'', 60, 3)]) \<le> 1"
    by blast
  with sample_scraped_by_activity n show ?thesis by (simp add: list_all_iff)
qed

section \<open>The order of the activity totals\<close>

lemma activity_total_returns:
  "sql_sum (map players rs) = Inr v \<Longrightarrow> \<exists>y. activity_total (k, rs) = Inr y"
  by (cases v) (simp_all add: activity_total_def)

lemma activity_rows_return:
  assumes nn: "\<forall>r\<in>set rows. 0 \<le> players r" and lt: "sum_list (map players rows) < 2 ^ 63"
  shows "\<exists>res. collect (map activity_total (group_by activity (\<lambda>k. k) rows)) = Inr res"
proof (rule collect_all_Inr, rule ballI)
  fix x
  assume m: "x \<in> set (group_by activity (\<lambda>k. k) rows)"
  obtain k rs where xk: "x = (k, rs)" by (cases x)
  from m have rs: "rs = filter (\<lambda>r. activity r = k) rows"
    unfolding xk group_by_iff by simp
  from nn have a: "\<forall>v\<in>set (map players rs). 0 \<le> v" unfolding rs by auto
  have "sum_list (map players rs) \<le> sum_list (map players rows)"
    unfolding rs using nn by (rule sum_list_filter_le)
  with lt have b: "sum_list (map players rs) < 2 ^ 63" by linarith
  from sql_sum_nonneg [OF a b] obtain v where "sql_sum (map players rs) = Inr v" ..
  then show "\<exists>y. activity_total x = Inr y"
    unfolding xk by (rule activity_total_returns)
qed

text \<open>
  Claim C10: the rows \<^verbatim>\<open>player_count_by_activity\<close> returns are ordered by
  \<open>total_players\<close>, largest first, where the total of a row is the sum of the players of
  the range's rows with the row's activity (and \<open>snapshot_count\<close> is their number). The
  function returns rows whenever the player counts are non-negative and their total stays
  below \<open>2\<^sup>6\<^sup>3\<close>.
\<close>

theorem activity_rows_descend_by_total:
  "(player_count_by_activity session start end = Inr rows \<longrightarrow>
      sorted (rev (map (\<lambda>row. fst (snd row)) rows)) \<and>
      (\<forall>row\<in>set rows.
         fst (snd row) = sum_list (map players
           (filter (\<lambda>r. activity r = fst row) (worlds_between session start end))) \<and>
         snd (snd row) = int (length
           (filter (\<lambda>r. activity r = fst row) (worlds_between session start end))))) \<and>
   ((\<forall>r\<in>set (playercountbyworld session). 0 \<le> players r) \<and>
    sum_list (map players (playercountbyworld session)) < 2 ^ 63 \<longrightarrow>
      (\<exists>res. player_count_by_activity session start end = Inr res))"
proof (intro conjI impI)
  assume a: "player_count_by_activity session start end = Inr rows"
  show "sorted (rev (map (\<lambda>row. fst (snd row)) rows))"
    by (rule activity_rows(2) [OF a])
  let ?grp = "group_by activity (\<lambda>k. k) (worlds_between session start end)"
  let ?h = "\<lambda>grp. (fst grp, sum_list (map players (snd grp)), int (length (snd grp)))"
  from activity_rows(1) [OF a] have "set rows = set (map ?h ?grp)" by (rule mset_eq_setD)
  then have s: "set rows = ?h ` set ?grp" by simp
  show "\<forall>row\<in>set rows.
         fst (snd row) = sum_list (map players
           (filter (\<lambda>r. activity r = fst row) (worlds_between session start end))) \<and>
         snd (snd row) = int (length
           (filter (\<lambda>r. activity r = fst row) (worlds_between session start end)))"
  proof
    fix row
    assume "row \<in> set rows"
    with s obtain k rs where g: "(k, rs) \<in> set ?grp" and row: "row = ?h (k, rs)" by auto
    from g have "rs = filter (\<lambda>r. activity r = k) (worlds_between session start end)"
      by (simp add: group_by_iff)
    with row show "fst (snd row) = sum_list (map players
           (filter (\<lambda>r. activity r = fst row) (worlds_between session start end))) \<and>
         snd (snd row) = int (length
           (filter (\<lambda>r. activity r = fst row) (worlds_between session start end)))"
      by simp
  qed
next
  assume h: "(\<forall>r\<in>set (playercountbyworld session). 0 \<le> players r) \<and>
    sum_list (map players (playercountbyworld session)) < 2 ^ 63"
  let ?rows = "worlds_between session start end"
  from h have nn: "\<forall>r\<in>set ?rows. 0 \<le> players r"
    by (simp add: worlds_between_def)
  have "sum_list (map players ?rows) \<le> sum_list (map players (playercountbyworld session))"
    unfolding worlds_between_def using h by (intro sum_list_filter_le) simp
  with h have lt: "sum_list (map players ?rows) < 2 ^ 63" by linarith
  from activity_rows_return [OF nn lt]
  show "\<exists>res. player_count_by_activity session start end = Inr res"
    by (auto simp: player_count_by_activity_def worlds_between_def Let_def)
qed

theorem activity_rows_descend_by_total_witness:
  "player_count_by_activity sample_scraped (mk_datetime 2024 1 1 0 0) (mk_datetime 2024 12 31 0 0)
     = Inr [(Some ''Bounty Hunter'', 100, 1), (Some ''No Activity'', 60, 3)] \<and>
   sorted (rev (map (\<lambda>row. fst (snd row))
     [(Some ''Bounty Hunter'', 100::int, 1::int), (Some ''No Activity'', 60, 3)])) \<and>
   sum_list (map players (filter (\<lambda>r. activity r = Some ''No Activity'')
     (worlds_between sample_scraped (mk_datetime 2024 1 1 0 0) (mk_datetime 2024 12 31 0 0)))) = 60"
proof -
  note t = activity_rows_descend_by_total [of sample_scraped "mk_datetime 2024 1 1 0 0"
      "mk_datetime 2024 12 31 0 0"
      "[(Some ''Bounty Hunter'', 100, 1), (Some ''No Activity'', 60, 3)]"]
  from t sample_scraped_by_activity
  have s: "sorted (rev (map (\<lambda>row. fst (snd row))
     [(Some ''Bounty Hunter'', 100::int, 1::int), (Some ''No Activity'', 60, 3)]))"
    by blast
  from t sample_scraped_by_activity
  have "\<forall>row\<in>set [(Some ''Bounty Hunter'', 100::int, 1::int), (Some ''No Activity'', 60, 3)].
         fst (snd row) = sum_list (map players
           (filter (\<lambda>r. activity r = fst row)
              (worlds_between sample_scraped (mk_datetime 2024 1 1 0 0)
                 (mk_datetime 2024 12 31 0 0))))"
    by blast
  then have "sum_list (map players (filter (\<lambda>r. activity r = Some ''No Activity'')
     (worlds_between sample_scraped (mk_datetime 2024 1 1 0 0) (mk_datetime 2024 12 31 0 0)))) = 60"
    by simp
  with sample_scraped_by_activity s show ?thesis by blast
qed

end
